theory Spec2Isabelle
  imports Main "HOL-Library.Sublist" "HOL-Library.Multiset"
begin

section \<open>JavaScript values used by scraper.js\<close>

text \<open>
  A JavaScript string is modelled as a \<^typ>\<open>string\<close>, one \<^typ>\<open>char\<close> per code unit
  (the code units 0 to 255). A value that may be \<open>null\<close> or \<open>undefined\<close> is an
  \<^typ>\<open>'a option\<close>. The scraper only ever tests its request flags for truthiness, so a
  flag is a \<^typ>\<open>bool\<close> (an absent flag is \<open>False\<close>).
\<close>

text \<open>Truthiness of a nullable string: \<open>null\<close> and the empty string are falsy.\<close>

definition truthy :: "string option \<Rightarrow> bool" where
  "truthy v = (case v of None \<Rightarrow> False | Some s \<Rightarrow> s \<noteq> [])"

text \<open>The operator \<open>a || b\<close> on nullable strings.\<close>

definition js_or :: "string option \<Rightarrow> string option \<Rightarrow> string option" where
  "js_or a b = (if truthy a then a else b)"

text \<open>A value inside a template literal: \<open>null\<close> is rendered as the text \<open>null\<close>.\<close>

definition tpl :: "string option \<Rightarrow> string" where
  "tpl v = (case v of None \<Rightarrow> ''null'' | Some s \<Rightarrow> s)"

section \<open>Strings\<close>

text \<open>
  \<open>String.prototype.toLowerCase\<close> on the code units 0 to 255: the letters A to Z and the
  capital letters 0xC0 to 0xDE (0xD7, the multiplication sign, excepted) have a lower-case
  partner 32 code units higher; every other code unit is unchanged.
\<close>

definition upper_letters :: string where
  "upper_letters = ''ABCDEFGHIJKLMNOPQRSTUVWXYZ'' @
     [CHR 0xC0, CHR 0xC1, CHR 0xC2, CHR 0xC3, CHR 0xC4, CHR 0xC5, CHR 0xC6, CHR 0xC7,
      CHR 0xC8, CHR 0xC9, CHR 0xCA, CHR 0xCB, CHR 0xCC, CHR 0xCD, CHR 0xCE, CHR 0xCF,
      CHR 0xD0, CHR 0xD1, CHR 0xD2, CHR 0xD3, CHR 0xD4, CHR 0xD5, CHR 0xD6,
      CHR 0xD8, CHR 0xD9, CHR 0xDA, CHR 0xDB, CHR 0xDC, CHR 0xDD, CHR 0xDE]"

definition lower_letters :: string where
  "lower_letters = ''abcdefghijklmnopqrstuvwxyz'' @
     [CHR 0xE0, CHR 0xE1, CHR 0xE2, CHR 0xE3, CHR 0xE4, CHR 0xE5, CHR 0xE6, CHR 0xE7,
      CHR 0xE8, CHR 0xE9, CHR 0xEA, CHR 0xEB, CHR 0xEC, CHR 0xED, CHR 0xEE, CHR 0xEF,
      CHR 0xF0, CHR 0xF1, CHR 0xF2, CHR 0xF3, CHR 0xF4, CHR 0xF5, CHR 0xF6,
      CHR 0xF8, CHR 0xF9, CHR 0xFA, CHR 0xFB, CHR 0xFC, CHR 0xFD, CHR 0xFE]"

definition toLowerChar :: "char \<Rightarrow> char" where
  "toLowerChar c = (case map_of (zip upper_letters lower_letters) c of Some l \<Rightarrow> l | None \<Rightarrow> c)"

definition toLowerCase :: "string \<Rightarrow> string" where
  "toLowerCase s = map toLowerChar s"

text \<open>\<open>s.startsWith(p)\<close> and \<open>s.includes(p)\<close> (\<open>includes\<close> is a reserved word here).\<close>

definition startsWith :: "string \<Rightarrow> string \<Rightarrow> bool" where
  "startsWith s p = (take (length p) s = p)"

fun str_includes :: "string \<Rightarrow> string \<Rightarrow> bool" where
  "str_includes [] p = (p = [])"
| "str_includes (c # cs) p = (startsWith (c # cs) p \<or> str_includes cs p)"

text \<open>
  White space as \<open>trim\<close>, \<open>parseInt\<close> and the pattern \<open>\s\<close> understand it (WhiteSpace and
  LineTerminator of the language definition), among the code units 0 to 255:
  TAB, LF, VT, FF, CR, SP and NBSP.
\<close>

definition isWhiteSpace :: "char \<Rightarrow> bool" where
  "isWhiteSpace c = (c \<in> set [CHR 0x09, CHR 0x0A, CHR 0x0B, CHR 0x0C, CHR 0x0D, CHR 0x20, CHR 0xA0])"

definition trim :: "string \<Rightarrow> string" where
  "trim s = rev (dropWhile isWhiteSpace (rev (dropWhile isWhiteSpace s)))"

section \<open>Configuration: SOURCES\<close>

text \<open>
  The object literal \<open>SOURCES\<close> (lines 46 to 51) with its three keys. Reading a property
  is \<open>map_of SOURCES key\<close>; a key that the literal does not define reads as \<open>undefined\<close>,
  here \<open>None\<close>.
\<close>

definition SOURCES :: "(string \<times> string) list" where
  "SOURCES =
    [(''ABLIS_ACTIVITY'', ''https://ablis.business.gov.au/search/activity''),
     (''ABLIS_HOME'', ''https://ablis.business.gov.au/''),
     (''ABS_ASGS_LGA'', ''https://www.abs.gov.au/statistics/standards/australian-statistical-geography-standard-asgs-edition-3/jul2021-jun2026/non-abs-structures/local-government-areas#lga-name-criteria'')]"

section \<open>Errors\<close>

text \<open>
  What the code can throw: \<open>new Error(message)\<close>, the \<open>TypeError\<close> of the language
  itself, and whatever the browser driver raises.
\<close>

datatype error = Error string | TypeError string | WebDriverError string

section \<open>mapStateFromPostcode\<close>

text \<open>
  \<open>parseInt(String(pc), 10)\<close> for a string \<open>pc\<close>: leading white space is skipped, one
  sign is read, then the longest run of decimal digits; \<open>NaN\<close> (here \<open>None\<close>) when that run
  is empty. The value is kept as an exact integer: the comparisons below are against
  numbers under 10000, where the rounding of a very long digit string to a double
  changes no outcome.
\<close>

definition isDigit :: "char \<Rightarrow> bool" where
  "isDigit c = (c \<in> set ''0123456789'')"

definition digitValue :: "char \<Rightarrow> int" where
  "digitValue c = (case map_of (zip ''0123456789'' [0, 1, 2, 3, 4, 5, 6, 7, 8, 9]) c of
                     Some d \<Rightarrow> d | None \<Rightarrow> 0)"

definition decimalValue :: "string \<Rightarrow> int" where
  "decimalValue z = foldl (\<lambda>a d. 10 * a + digitValue d) 0 z"

definition parseInt10 :: "string \<Rightarrow> int option" where
  "parseInt10 inputString =
     (let s = dropWhile isWhiteSpace inputString;
          sign = (case s of [] \<Rightarrow> 1 | c # _ \<Rightarrow> if c = CHR ''-'' then - 1 else (1::int));
          s' = (case s of [] \<Rightarrow> [] | c # cs \<Rightarrow> if c = CHR ''+'' \<or> c = CHR ''-'' then cs else s);
          z = takeWhile isDigit s'
      in if z = [] then None else Some (sign * decimalValue z))"

definition mapStateFromPostcode :: "string \<Rightarrow> string option" where
  "mapStateFromPostcode pc =
     (case parseInt10 pc of
        None \<Rightarrow> None
      | Some n \<Rightarrow>
          if (n \<ge> 200 \<and> n \<le> 299) \<or> (n \<ge> 2600 \<and> n \<le> 2618) \<or> (n \<ge> 2900 \<and> n \<le> 2999)
            then Some ''ACT''
          else if n \<ge> 800 \<and> n \<le> 899 then Some ''NT''
          else if (n \<ge> 1000 \<and> n \<le> 2599) \<or> (n \<ge> 2619 \<and> n \<le> 2898) then Some ''NSW''
          else if n \<ge> 3000 \<and> n \<le> 3999 then Some ''VIC''
          else if n \<ge> 4000 \<and> n \<le> 4999 then Some ''QLD''
          else if n \<ge> 5000 \<and> n \<le> 5799 then Some ''SA''
          else if n \<ge> 6000 \<and> n \<le> 6799 then Some ''WA''
          else if n \<ge> 7000 \<and> n \<le> 7799 then Some ''TAS''
          else None)"

text \<open>
  The range table that the chain of comparisons above encodes, written out as data in
  the order of the source: lower bound, upper bound, state code.
\<close>

definition stateRanges :: "(int \<times> int \<times> string) list" where
  "stateRanges =
    [(200, 299, ''ACT''), (2600, 2618, ''ACT''), (2900, 2999, ''ACT''),
     (800, 899, ''NT''),
     (1000, 2599, ''NSW''), (2619, 2898, ''NSW''),
     (3000, 3999, ''VIC''),
     (4000, 4999, ''QLD''),
     (5000, 5799, ''SA''),
     (6000, 6799, ''WA''),
     (7000, 7799, ''TAS'')]"

definition inRange :: "int \<Rightarrow> int \<times> int \<times> string \<Rightarrow> bool" where
  "inRange n r = (fst r \<le> n \<and> n \<le> fst (snd r))"

text \<open>Two ranges overlap when some integer lies in both.\<close>

definition overlap :: "int \<times> int \<times> string \<Rightarrow> int \<times> int \<times> string \<Rightarrow> bool" where
  "overlap r r' = (max (fst r) (fst r') \<le> min (fst (snd r)) (fst (snd r')))"

fun pairwiseDisjoint :: "(int \<times> int \<times> string) list \<Rightarrow> bool" where
  "pairwiseDisjoint [] = True"
| "pairwiseDisjoint (r # rs) = (list_all (\<lambda>r'. \<not> overlap r r') rs \<and> pairwiseDisjoint rs)"

section \<open>Records of the result set\<close>

text \<open>The object literal pushed by \<open>parseAblisResults\<close> (scraper.js, lines 161 to 168).\<close>

record item =
  level :: "string option"
  regulator :: "string option"
  obligation :: "string option"
  source_url :: "string option"
  activity :: string
  postcode :: string

section \<open>dedupeBy\<close>

text \<open>
  The loop of \<open>dedupeBy\<close> (lines 191 to 201): \<open>seen\<close> is the \<open>Set\<close> of keys, \<open>out\<close>
  the array that \<open>push\<close> extends at its end.
\<close>

fun dedupe_loop :: "('a \<Rightarrow> 'k) \<Rightarrow> 'a list \<Rightarrow> 'k set \<Rightarrow> 'a list \<Rightarrow> 'a list" where
  "dedupe_loop keyFn [] seen out = out"
| "dedupe_loop keyFn (it # arr) seen out =
     (let k = keyFn it in
      if k \<in> seen then dedupe_loop keyFn arr seen out
      else dedupe_loop keyFn arr (insert k seen) (out @ [it]))"

definition dedupeBy :: "'a list \<Rightarrow> ('a \<Rightarrow> 'k) \<Rightarrow> 'a list" where
  "dedupeBy arr keyFn = dedupe_loop keyFn arr {} []"

text \<open>
  The key function given to \<open>dedupeBy\<close> at lines 171, 235 and 306:
  the template literal \<open>`${r.obligation}|${r.regulator}|${r.source_url}`\<close>.
\<close>

definition itemKey :: "item \<Rightarrow> string" where
  "itemKey r = tpl (obligation r) @ ''|'' @ tpl (regulator r) @ ''|'' @ tpl (source_url r)"

text \<open>The deduplication of records as the pipeline performs it.\<close>

definition dedupe :: "item list \<Rightarrow> item list" where
  "dedupe records = dedupeBy records itemKey"

section \<open>Regular expressions\<close>

text \<open>
  The patterns of scraper.js use literals, the classes \<open>[^>]\<close>, \<open>[^"]\<close>, \<open>[\s\S]\<close> and
  \<open>\s\<close>, the quantifiers \<open>*\<close>, \<open>+\<close> and \<open>*?\<close> on such a class, alternation and groups.
  They are written as terms of \<open>rx\<close>, and matched by a backtracking matcher in the
  continuation style of the language definition: alternatives left to right, a greedy
  quantifier longest first, a lazy one shortest first.
\<close>

datatype atom = AnyChar | NotChar char | Space

datatype rx =
    Lits string
  | One atom
  | Rep bool atom
  | Seq rx rx
  | Alt rx rx
  | Group nat rx

text \<open>\<open>x+\<close> is \<open>xx*\<close>; a sequence or an alternation of several parts nests to the right.\<close>

definition Plus :: "atom \<Rightarrow> rx" where
  "Plus a = Seq (One a) (Rep True a)"

fun seqs :: "rx list \<Rightarrow> rx" where
  "seqs [] = Lits []"
| "seqs [r] = r"
| "seqs (r # rs) = Seq r (seqs rs)"

fun alts :: "rx list \<Rightarrow> rx" where
  "alts [] = Lits []"
| "alts [r] = r"
| "alts (r # rs) = Alt r (alts rs)"

fun amatch :: "atom \<Rightarrow> char \<Rightarrow> bool" where
  "amatch AnyChar c = True"
| "amatch (NotChar x) c = (c \<noteq> x)"
| "amatch Space c = isWhiteSpace c"

text \<open>
  A literal under the flag \<open>i\<close>: two code units match when they are equal up to case.
  (The language compares canonical forms, built from the upper case; among the code
  units 0 to 255 these agree exactly when the lower-case forms do.)
\<close>

fun imatch :: "string \<Rightarrow> string \<Rightarrow> bool" where
  "imatch [] s = True"
| "imatch (p # ps) [] = False"
| "imatch (p # ps) (c # cs) = (toLowerChar p = toLowerChar c \<and> imatch ps cs)"

text \<open>
  A matcher state is the input still to be read and the captures so far. \<open>k\<close> is the
  continuation: what has to match after the current part.
\<close>

type_synonym mstate = "string \<times> string option list"

fun rep_greedy :: "atom \<Rightarrow> (string \<Rightarrow> 'r option) \<Rightarrow> string \<Rightarrow> 'r option" where
  "rep_greedy a k [] = k []"
| "rep_greedy a k (c # cs) =
     (if amatch a c
      then (case rep_greedy a k cs of Some r \<Rightarrow> Some r | None \<Rightarrow> k (c # cs))
      else k (c # cs))"

fun rep_lazy :: "atom \<Rightarrow> (string \<Rightarrow> 'r option) \<Rightarrow> string \<Rightarrow> 'r option" where
  "rep_lazy a k [] = k []"
| "rep_lazy a k (c # cs) =
     (case k (c # cs) of
        Some r \<Rightarrow> Some r
      | None \<Rightarrow> if amatch a c then rep_lazy a k cs else None)"

primrec rmatch :: "rx \<Rightarrow> (mstate \<Rightarrow> mstate option) \<Rightarrow> mstate \<Rightarrow> mstate option" where
  "rmatch (Lits l) k st =
     (if imatch l (fst st) then k (drop (length l) (fst st), snd st) else None)"
| "rmatch (One a) k st =
     (case fst st of [] \<Rightarrow> None | c # cs \<Rightarrow> if amatch a c then k (cs, snd st) else None)"
| "rmatch (Rep greedy a) k st =
     (if greedy then rep_greedy a (\<lambda>s. k (s, snd st)) (fst st)
      else rep_lazy a (\<lambda>s. k (s, snd st)) (fst st))"
| "rmatch (Seq r1 r2) k st = rmatch r1 (rmatch r2 k) st"
| "rmatch (Alt r1 r2) k st =
     (case rmatch r1 k st of Some m \<Rightarrow> Some m | None \<Rightarrow> rmatch r2 k st)"
| "rmatch (Group i r) k st =
     rmatch r
       (\<lambda>st'. k (fst st',
                 (snd st')[i := Some (take (length (fst st) - length (fst st')) (fst st))]))
       st"

text \<open>A match that starts at the first code unit of \<open>s\<close>: the rest of the input after it.\<close>

definition match_at :: "rx \<Rightarrow> string \<Rightarrow> string option" where
  "match_at r s = map_option fst (rmatch r Some (s, []))"

text \<open>
  \<open>re.exec(s)\<close> for a pattern without the flag \<open>g\<close>: the match at the leftmost start
  position that has one. The result is \<open>m.slice(1)\<close>, the \<open>n\<close> captures, \<open>None\<close> for a group
  that took no part; \<open>None\<close> as a whole when nothing matches.
\<close>

fun regex_exec :: "rx \<Rightarrow> nat \<Rightarrow> string \<Rightarrow> string option list option" where
  "regex_exec r n [] = map_option snd (rmatch r Some ([], replicate n None))"
| "regex_exec r n (c # cs) =
     (case rmatch r Some (c # cs, replicate n None) of
        Some st \<Rightarrow> Some (snd st)
      | None \<Rightarrow> regex_exec r n cs)"

text \<open>
  \<open>s.replace(re, rep)\<close> for a pattern with the flag \<open>g\<close> and a replacement text without
  \<open>$\<close>: every match, left to right, is replaced; after an empty match the search moves on
  by one code unit.
\<close>

function replace_all :: "rx \<Rightarrow> string \<Rightarrow> string \<Rightarrow> string" where
  "replace_all r rep [] = (case match_at r [] of Some _ \<Rightarrow> rep | None \<Rightarrow> [])"
| "replace_all r rep (c # cs) =
     (case match_at r (c # cs) of
        None \<Rightarrow> c # replace_all r rep cs
      | Some rest \<Rightarrow>
          if length rest < length (c # cs) then rep @ replace_all r rep rest
          else rep @ c # replace_all r rep cs)"
  by pat_completeness auto
termination
  by (relation "measure (\<lambda>(r, rep, s). length s)") auto

text \<open>
  \<open>s.split(re)\<close> for a pattern without groups. \<open>acc\<close> holds, reversed, the code units
  read since the end of the last separator. A match is tried at every position before
  the end of the input; an empty match directly after a separator is passed over.
\<close>

function split_loop :: "rx \<Rightarrow> string \<Rightarrow> string \<Rightarrow> string list" where
  "split_loop r [] acc = [rev acc]"
| "split_loop r (c # cs) acc =
     (case match_at r (c # cs) of
        None \<Rightarrow> split_loop r cs (c # acc)
      | Some rest \<Rightarrow>
          if length rest < length (c # cs) then rev acc # split_loop r rest []
          else if acc = [] then split_loop r cs [c]
          else rev acc # split_loop r cs [c])"
  by pat_completeness auto
termination
  by (relation "measure (\<lambda>(r, s, acc). length s)") auto

definition split_regex :: "rx \<Rightarrow> string \<Rightarrow> string list" where
  "split_regex r s =
     (if s = [] then (case match_at r [] of Some _ \<Rightarrow> [] | None \<Rightarrow> [[]])
      else split_loop r s [])"

section \<open>The patterns of the extractor\<close>

text \<open>Line 135: \<open>/<article|<li class="search-result|<div class="result-card|<div class="result"/i\<close>.\<close>

definition cardRe :: rx where
  \<open>cardRe = alts [Lits ''<article'', Lits ''<li class="search-result'',
                  Lits ''<div class="result-card'', Lits ''<div class="result"'']\<close>

text \<open>
  Line 137:
  \<open>/<h3[^>]*>([\s\S]*?)<\/h3>|<h2[^>]*>([\s\S]*?)<\/h2>|<a[^>]*class="[^"]*title[^"]*"[^>]*>([\s\S]*?)<\/a>/i\<close>.
\<close>

definition titleRe :: rx where
  \<open>titleRe = alts
     [seqs [Lits ''<h3'', Rep True (NotChar CHR ''>''), Lits ''>'',
            Group 0 (Rep False AnyChar), Lits ''</h3>''],
      seqs [Lits ''<h2'', Rep True (NotChar CHR ''>''), Lits ''>'',
            Group 1 (Rep False AnyChar), Lits ''</h2>''],
      seqs [Lits ''<a'', Rep True (NotChar CHR ''>''), Lits ''class="'',
            Rep True (NotChar CHR 0x22), Lits ''title'', Rep True (NotChar CHR 0x22),
            Lits ''"'', Rep True (NotChar CHR ''>''), Lits ''>'',
            Group 2 (Rep False AnyChar), Lits ''</a>'']]\<close>

text \<open>
  Line 138:
  \<open>/class="(?:agency|provider|organisation|regulator|agency-name)"[^>]*>([\s\S]*?)<\/[^>]+>/i\<close>.
\<close>

definition agencyRe :: rx where
  \<open>agencyRe = seqs
     [Lits ''class="'',
      alts [Lits ''agency'', Lits ''provider'', Lits ''organisation'', Lits ''regulator'',
            Lits ''agency-name''],
      Lits ''"'', Rep True (NotChar CHR ''>''), Lits ''>'',
      Group 0 (Rep False AnyChar), Lits ''</'', Plus (NotChar CHR ''>''), Lits ''>'']\<close>

text \<open>Line 139: \<open>/class="(?:jurisdiction|level|gov-level)"[^>]*>([\s\S]*?)<\/[^>]+>/i\<close>.\<close>

definition levelRe :: rx where
  \<open>levelRe = seqs
     [Lits ''class="'',
      alts [Lits ''jurisdiction'', Lits ''level'', Lits ''gov-level''],
      Lits ''"'', Rep True (NotChar CHR ''>''), Lits ''>'',
      Group 0 (Rep False AnyChar), Lits ''</'', Plus (NotChar CHR ''>''), Lits ''>'']\<close>

text \<open>Line 181: \<open>/<a[^>]+href="([^"]+)"/i\<close>.\<close>

definition hrefRe :: rx where
  \<open>hrefRe = seqs
     [Lits ''<a'', Plus (NotChar CHR ''>''), Lits ''href="'',
      Group 0 (Plus (NotChar CHR 0x22)), Lits ''"'']\<close>

text \<open>
  Line 189: \<open>/<[^>]+>/g\<close> and \<open>/\s+/g\<close>. These two carry no flag \<open>i\<close>; they hold no
  letter, so that matching up to case is matching exactly.
\<close>

definition tagRe :: rx where
  "tagRe = seqs [Lits ''<'', Plus (NotChar CHR ''>''), Lits ''>'']"

definition spacesRe :: rx where
  "spacesRe = Plus Space"

section \<open>The extractor\<close>

text \<open>\<open>textBetween\<close> (lines 174 to 179); \<open>n\<close> is the number of groups of the pattern.\<close>

definition textBetween :: "string \<Rightarrow> rx \<Rightarrow> nat \<Rightarrow> string option" where
  "textBetween s re n =
     (case regex_exec re n s of
        None \<Rightarrow> None
      | Some m \<Rightarrow> (case filter truthy m of [] \<Rightarrow> None | g # _ \<Rightarrow> g))"

text \<open>\<open>linkHref\<close> (lines 180 to 186).\<close>

definition linkHref :: "string \<Rightarrow> string option" where
  "linkHref s =
     (case regex_exec hrefRe 1 s of
        None \<Rightarrow> None
      | Some m \<Rightarrow>
          (case m of
             [] \<Rightarrow> None
           | href # _ \<Rightarrow>
               (case href of
                  None \<Rightarrow> None
                | Some h \<Rightarrow>
                    if h \<noteq> [] \<and> startsWith h ''/''
                    then Some (''https://ablis.business.gov.au'' @ h)
                    else Some h)))"

text \<open>\<open>clean\<close> (lines 187 to 190).\<close>

definition clean :: "string option \<Rightarrow> string option" where
  "clean s =
     (case s of
        None \<Rightarrow> None
      | Some x \<Rightarrow>
          if x = [] then None
          else Some (trim (replace_all spacesRe '' '' (replace_all tagRe '' '' x))))"

text \<open>
  The body of the loop of \<open>parseAblisResults\<close> (lines 137 to 168) for one chunk:
  \<open>None\<close> where the source says \<open>continue\<close>, else the record that it pushes.
\<close>

definition chunkItem :: "string \<Rightarrow> string \<Rightarrow> string \<Rightarrow> item option" where
  "chunkItem raw activity' postcode' =
     (let title = textBetween raw titleRe 3;
          agency = textBetween raw agencyRe 1;
          level' = textBetween raw levelRe 1;
          link = linkHref raw
      in if \<not> truthy title \<and> \<not> truthy agency \<and> \<not> truthy link then None
         else
           let cleanTitle = clean title;
               cleanAgency = clean agency;
               cleanLevel = clean level';
               cleanLevel =
                 (if \<not> truthy cleanLevel \<and> truthy cleanAgency
                  then (let low = toLowerCase (tpl cleanAgency)
                        in if str_includes low ''council'' \<or> str_includes low ''shire''
                                \<or> str_includes low ''city of''
                           then Some ''local'' else cleanLevel)
                  else cleanLevel);
               cleanLevel =
                 (if \<not> truthy cleanLevel \<and> truthy cleanTitle
                  then (let low = toLowerCase (tpl cleanTitle)
                        in if str_includes low ''state'' then Some ''state''
                           else if str_includes low ''commonwealth'' \<or> str_includes low ''federal''
                           then Some ''federal'' else cleanLevel)
                  else cleanLevel)
           in Some \<lparr>level = js_or cleanLevel None,
                    regulator = js_or cleanAgency None,
                    obligation = js_or cleanTitle None,
                    source_url = js_or link (map_of SOURCES ''ABLIS_HOME''),
                    activity = activity',
                    postcode = postcode'\<rparr>)"

fun parse_chunks :: "string list \<Rightarrow> string \<Rightarrow> string \<Rightarrow> item list" where
  "parse_chunks [] activity' postcode' = []"
| "parse_chunks (raw # chunks) activity' postcode' =
     (case chunkItem raw activity' postcode' of
        None \<Rightarrow> parse_chunks chunks activity' postcode'
      | Some it \<Rightarrow> it # parse_chunks chunks activity' postcode')"

definition parseAblisResults :: "string \<Rightarrow> string \<Rightarrow> string \<Rightarrow> item list" where
  "parseAblisResults html activity' postcode' =
     dedupeBy (parse_chunks (split_regex cardRe html) activity' postcode') itemKey"

section \<open>Grouping and summary\<close>

text \<open>The object \<open>levels\<close> of \<open>groupByLevel\<close> (line 241).\<close>

record levels =
  local :: "item list"
  state :: "item list"
  federal :: "item list"
  unknown :: "item list"

text \<open>
  \<open>groupByLevel\<close> (lines 240 to 250): the loop pushes every record at the end of one of
  the four arrays. \<open>levelText\<close> is the text it tests, \<open>(it.level || "").toLowerCase()\<close>.
\<close>

definition levelText :: "item \<Rightarrow> string" where
  "levelText it = toLowerCase (tpl (js_or (level it) (Some [])))"

fun group_loop :: "item list \<Rightarrow> levels \<Rightarrow> levels" where
  "group_loop [] levels = levels"
| "group_loop (it # items) levels =
     (let lvl = levelText it
      in if str_includes lvl ''local''
           then group_loop items (levels\<lparr>local := local levels @ [it]\<rparr>)
         else if str_includes lvl ''state''
           then group_loop items (levels\<lparr>state := state levels @ [it]\<rparr>)
         else if str_includes lvl ''federal'' \<or> str_includes lvl ''commonwealth''
           then group_loop items (levels\<lparr>federal := federal levels @ [it]\<rparr>)
         else group_loop items (levels\<lparr>unknown := unknown levels @ [it]\<rparr>))"

definition groupByLevel :: "item list \<Rightarrow> levels" where
  "groupByLevel items = group_loop items \<lparr>local = [], state = [], federal = [], unknown = []\<rparr>"

text \<open>\<open>tryInferLGA\<close> (lines 253 to 261).\<close>

fun tryInferLGA :: "item list \<Rightarrow> string option" where
  "tryInferLGA [] = None"
| "tryInferLGA (it # items) =
     (let reg = toLowerCase (tpl (js_or (regulator it) (Some [])))
      in if str_includes reg ''council'' \<or> str_includes reg ''city of'' \<or> str_includes reg ''shire''
         then regulator it
         else tryInferLGA items)"

section \<open>The request\<close>

text \<open>
  The controlled-substance flags as the header of scraper.js documents them (lines 23 to
  28). \<open>flags\<close> is the object that \<open>supplementalQueries\<close> receives; the request's
  \<open>controlledSubstances\<close> has the same three categories, \<open>usesControlled\<close>, and the property
  \<open>schedules\<close> that line 299 reads from it. A category that the request leaves out is
  \<open>None\<close>; a list that is left out, or is no array, is \<open>None\<close>.
\<close>

record alcohol_flags =
  serveOnPremise :: bool
  takeaway :: bool
  brewOrDistil :: bool

record medicines_flags =
  dispense :: bool
  wholesale :: bool
  storeOnly :: bool
  schedules :: "string list option"

record chemicals_flags =
  manufacture :: bool
  importOrExport :: bool
  transport :: bool
  store :: bool

record flags =
  alcohol :: "alcohol_flags option"
  medicines :: "medicines_flags option"
  chemicals :: "chemicals_flags option"

record controlledSubstances = flags +
  usesControlled :: bool
  schedules :: "string list option"

record request =
  postcode :: "string option"
  activityDescription :: "string option"
  anzsicCode :: "string option"
  businessStructure :: "string option"
  controlledSubstances :: "controlledSubstances option"

section \<open>The browser session\<close>

text \<open>
  What the outside world decides is a parameter \<open>env\<close>: whether the \<open>n\<close>-th
  \<open>Builder.build()\<close> succeeds, whether \<open>driver.quit()\<close> of a driver succeeds, and what
  the browser shows for the \<open>n\<close>-th query of a run (\<open>n\<close> counts the queries issued before
  it).
  A \<open>page\<close> says whether a driver call raises (\<open>failure\<close>), which CSS selectors find an
  element (\<open>present\<close>), and the page source after the search (\<open>source\<close>).
\<close>

record page =
  failure :: "error option"
  present :: "string \<Rightarrow> bool"
  source :: string

record env =
  builds :: "nat \<Rightarrow> bool"
  quits :: "nat \<Rightarrow> bool"
  respond :: "nat \<Rightarrow> string \<Rightarrow> string \<Rightarrow> page"

text \<open>
  The state that the code changes: how many sessions were built, which of them are
  still open, on which drivers \<open>quit\<close> was called, and the queries issued so far
  (driver, keywords, postcode).
\<close>

record browser =
  built :: nat
  live :: "nat list"
  quitCalls :: "nat list"
  issued :: "(nat \<times> string \<times> string) list"

text \<open>
  \<open>driver.quit()\<close>: the call is made in either case; when it succeeds the session of
  that driver is ended, when it fails it raises and the session is left as it was.
\<close>

definition quit :: "env \<Rightarrow> nat \<Rightarrow> browser \<Rightarrow> error option \<times> browser" where
  "quit e driver b =
     (if quits e driver
      then (None, b\<lparr>live := removeAll driver (live b), quitCalls := quitCalls b @ [driver]\<rparr>)
      else (Some (WebDriverError ''quit failed''), b\<lparr>quitCalls := quitCalls b @ [driver]\<rparr>))"

text \<open>
  \<open>withDriver\<close> (lines 71 to 84). A failing \<open>build()\<close> throws before the \<open>try\<close>; after it,
  \<open>finally\<close> awaits \<open>driver.quit()\<close> whether \<open>fn\<close> returned or threw. When \<open>quit\<close> succeeds
  the outcome of \<open>fn\<close> is the outcome of \<open>withDriver\<close>; an error raised inside \<open>finally\<close>
  takes the place of that outcome.
\<close>

definition withDriver ::
  "env \<Rightarrow> (nat \<Rightarrow> browser \<Rightarrow> (error + 'a) \<times> browser) \<Rightarrow> browser \<Rightarrow> (error + 'a) \<times> browser" where
  "withDriver e fn b =
     (if \<not> builds e (built b)
      then (Inl (WebDriverError ''session not created''), b\<lparr>built := Suc (built b)\<rparr>)
      else
        let driver = built b;
            b1 = b\<lparr>built := Suc driver, live := driver # live b\<rparr>;
            (r, b2) = fn driver b1;
            (q, b3) = quit e driver b2
        in (case q of Some err \<Rightarrow> Inl err | None \<Rightarrow> r, b3))"

section \<open>ABLIS scraping\<close>

text \<open>\<open>findFirst\<close> (lines 97 to 103): the first selector of the list that finds an element.\<close>

definition findFirst :: "page \<Rightarrow> string list \<Rightarrow> string option" where
  "findFirst pg cssList = find (present pg) cssList"

text \<open>
  \<open>searchAblis\<close> (lines 88 to 127). A wait that times out is caught at line 123 and
  changes nothing.
\<close>

definition searchAblis ::
  "env \<Rightarrow> nat \<Rightarrow> string \<Rightarrow> string \<Rightarrow> browser \<Rightarrow> (error + item list) \<times> browser" where
  "searchAblis e driver activity' postcode' b =
     (let pg = respond e (length (issued b)) activity' postcode';
          b' = b\<lparr>issued := issued b @ [(driver, activity', postcode')]\<rparr>;
          keywordInput = findFirst pg [''input#keyword'', ''input[name='keyword']'', ''input[type='search']''];
          locationInput = findFirst pg [''input#location'', ''input[name='location']'', ''input[placeholder*='postcode']''];
          submitBtn = findFirst pg [''button[type='submit']'', ''button#search'', ''button[class*='search']'']
      in case failure pg of
           Some err \<Rightarrow> (Inl err, b')
         | None \<Rightarrow>
             if keywordInput = None \<or> locationInput = None \<or> submitBtn = None
             then (Inl (Error ''Could not find ABLIS search controls. Update selectors.''), b')
             else (Inr (parseAblisResults (source pg) activity' postcode'), b'))"

text \<open>\<open>searchAblis(...).catch(() => [])\<close>: a failed query gives no records.\<close>

definition searchOrEmpty ::
  "env \<Rightarrow> nat \<Rightarrow> string \<Rightarrow> string \<Rightarrow> browser \<Rightarrow> item list \<times> browser" where
  "searchOrEmpty e driver activity' postcode' b =
     (case searchAblis e driver activity' postcode' b of
        (Inl err, b') \<Rightarrow> ([], b')
      | (Inr results, b') \<Rightarrow> (results, b'))"

section \<open>Supplemental queries\<close>

text \<open>The phrases that \<open>supplementalQueries\<close> collects in \<open>wants\<close> (lines 208 to 226).\<close>

definition wants :: "flags \<Rightarrow> string list" where
  "wants fl =
     (case alcohol fl of
        None \<Rightarrow> []
      | Some a \<Rightarrow>
          if serveOnPremise a \<or> takeaway a \<or> brewOrDistil a
          then [''liquor licence'', ''responsible service of alcohol''] else [])
     @ (case medicines fl of
        None \<Rightarrow> []
      | Some m \<Rightarrow>
          if dispense m \<or> wholesale m \<or> storeOnly m
          then [''scheduled medicines'', ''pharmacy'']
               @ (case medicines_flags.schedules m of
                    None \<Rightarrow> []
                  | Some xs \<Rightarrow> if length xs \<noteq> 0 then [''poisons permit''] else [])
          else [])
     @ (case chemicals fl of
        None \<Rightarrow> []
      | Some c \<Rightarrow>
          if manufacture c \<or> importOrExport c \<or> transport c \<or> store c
          then [''hazardous chemicals'', ''dangerous goods''] else [])"

text \<open>The loop of lines 229 to 234: one query per phrase, its records tagged with the phrase.\<close>

fun supplemental_loop ::
  "env \<Rightarrow> nat \<Rightarrow> string \<Rightarrow> string list \<Rightarrow> item list \<Rightarrow> browser \<Rightarrow> item list \<times> browser" where
  "supplemental_loop e driver postcode' [] extra b = (extra, b)"
| "supplemental_loop e driver postcode' (q # qs) extra b =
     (let (results, b') = searchOrEmpty e driver q postcode' b
      in supplemental_loop e driver postcode' qs
           (extra @ map (\<lambda>r. r\<lparr>activity := q\<rparr>) results) b')"

definition supplementalQueries ::
  "env \<Rightarrow> nat \<Rightarrow> string \<Rightarrow> flags \<Rightarrow> browser \<Rightarrow> item list \<times> browser" where
  "supplementalQueries e driver postcode' fl b =
     (let (extra, b') = supplemental_loop e driver postcode' (dedupeBy (wants fl) (\<lambda>x. x)) [] b
      in (dedupeBy extra itemKey, b'))"

section \<open>The main handler\<close>

text \<open>
  The argument of \<open>supplementalQueries\<close> that \<open>scrapeAll\<close> builds at lines 295 to 302:
  the spread of \<open>controlledSubstances.medicines\<close> (of nothing when it is absent), with
  \<open>schedules\<close> then set to \<open>controlledSubstances.schedules || []\<close>.
\<close>

definition flagsOf :: "controlledSubstances \<Rightarrow> flags" where
  "flagsOf cs =
     \<lparr>alcohol = alcohol cs,
      medicines = Some
        ((case medicines cs of
            None \<Rightarrow> \<lparr>dispense = False, wholesale = False, storeOnly = False, schedules = None\<rparr>
          | Some m \<Rightarrow> m)
         \<lparr>medicines_flags.schedules :=
            Some (case controlledSubstances.schedules cs of None \<Rightarrow> [] | Some xs \<Rightarrow> xs)\<rparr>),
      chemicals = chemicals cs\<rparr>"

text \<open>
  Spreading a value into an array literal (\<open>...v\<close>): \<open>undefined\<close> is not iterable and
  throws a \<open>TypeError\<close>; a string spreads into its characters.
\<close>

definition spread :: "string option \<Rightarrow> error + string option list" where
  "spread v =
     (case v of
        None \<Rightarrow> Inl (TypeError ''undefined is not iterable'')
      | Some s \<Rightarrow> Inr (map (\<lambda>c. Some [c]) s))"

text \<open>
  The envelope returned at lines 336 to 349. \<open>prompt_for_ai\<close> repeats the values of
  \<open>input\<close> and \<open>jurisdiction\<close> next to constant texts and is left out.
\<close>

record jurisdiction =
  jstate :: "string option"
  inferredLGA :: "string option"

record envelope =
  ok :: bool
  input :: request
  jurisdiction :: jurisdiction
  links :: "string option list"
  results :: levels
  confidence :: string

text \<open>The body that \<open>scrapeAll\<close> hands to \<open>withDriver\<close> (lines 281 to 350).\<close>

definition scrapeBody ::
  "env \<Rightarrow> request \<Rightarrow> string \<Rightarrow> string \<Rightarrow> nat \<Rightarrow> browser \<Rightarrow> (error + envelope) \<times> browser" where
  "scrapeBody e req postcode' activityDescription' driver b =
     (let state' = mapStateFromPostcode postcode';
          (base, b1) = searchOrEmpty e driver activityDescription' postcode' b;
          allItems = base;
          (allItems, b2) =
            (if truthy (anzsicCode req)
             then (let codeQuery = activityDescription' @ '' '' @ tpl (anzsicCode req);
                       (extra, b') = searchOrEmpty e driver codeQuery postcode' b1
                   in (allItems @ extra, b'))
             else (allItems, b1));
          (allItems, b3) =
            (case controlledSubstances req of
               None \<Rightarrow> (allItems, b2)
             | Some cs \<Rightarrow>
                 if usesControlled cs
                 then (let (extra, b') = supplementalQueries e driver postcode' (flagsOf cs) b2
                       in (allItems @ extra, b'))
                 else (allItems, b2));
          deduped = dedupeBy allItems itemKey;
          groups = groupByLevel deduped;
          inferredLGA' = tryInferLGA deduped
      in case spread (map_of SOURCES ''GOVHACK_LINKS'') of
           Inl err \<Rightarrow> (Inl err, b3)
         | Inr govhack \<Rightarrow>
             (Inr \<lparr>ok = True,
                   input = req,
                   jurisdiction = \<lparr>jstate = state', inferredLGA = inferredLGA'\<rparr>,
                   links = [map_of SOURCES ''ABLIS_ACTIVITY'', map_of SOURCES ''ABS_ASGS_LGA'']
                           @ govhack,
                   results = groups,
                   confidence =
                     (if truthy state'
                      then ''Location resolved by postcode to state. LGA inferred from regulator text if present.''
                      else ''State could not be confidently resolved from postcode.'')\<rparr>,
              b3))"

text \<open>
  \<open>scrapeAll\<close> (lines 265 to 351). \<open>input || {}\<close>: a missing body has no fields. The
  check of line 274 throws before any session is built.
\<close>

definition scrapeAll :: "env \<Rightarrow> request option \<Rightarrow> browser \<Rightarrow> (error + envelope) \<times> browser" where
  "scrapeAll e input' b =
     (let req = (case input' of
                   None \<Rightarrow> \<lparr>postcode = None, activityDescription = None, anzsicCode = None,
                             businessStructure = None, controlledSubstances = None\<rparr>
                 | Some r \<Rightarrow> r)
      in if \<not> truthy (request.postcode req) \<or> \<not> truthy (activityDescription req)
         then (Inl (Error ''postcode and activityDescription are required''), b)
         else withDriver e
                (scrapeBody e req (tpl (request.postcode req)) (tpl (activityDescription req))) b)"

section \<open>Inputs used in the examples\<close>

text \<open>
  A page with two cards, whose texts contain the character \<open>|\<close>: the title
  \<open>Food|Safety\<close> under the agency \<open>Agency\<close>, and the title \<open>Food\<close> under the agency
  \<open>Safety|Agency\<close>; and the two records that the extractor reads from the two cards.
\<close>

definition twoCards :: string where
  \<open>twoCards =
     ''<article><h3>Food|Safety</h3><b class="agency">Agency</b>'' @
     ''<article><h3>Food</h3><b class="agency">Safety|Agency</b>''\<close>

definition recordA :: item where
  "recordA = \<lparr>level = None, regulator = Some ''Agency'', obligation = Some ''Food|Safety'',
              source_url = Some ''https://ablis.business.gov.au/'',
              activity = ''cafe'', postcode = ''3066''\<rparr>"

definition recordB :: item where
  "recordB = \<lparr>level = None, regulator = Some ''Safety|Agency'', obligation = Some ''Food'',
              source_url = Some ''https://ablis.business.gov.au/'',
              activity = ''cafe'', postcode = ''3066''\<rparr>"

text \<open>A request for a cafe with no optional field, and one for a pharmacy that dispenses
  medicines and lists a schedule inside \<open>medicines\<close>, the shape of the header comment.\<close>

definition cafeRequest :: request where
  "cafeRequest = \<lparr>postcode = Some ''3066'', activityDescription = Some ''Cafe'',
                   anzsicCode = None, businessStructure = None, controlledSubstances = None\<rparr>"

definition pharmacyFlags :: controlledSubstances where
  "pharmacyFlags =
     \<lparr>alcohol = None,
      medicines = Some \<lparr>dispense = True, wholesale = False, storeOnly = False,
                        schedules = Some [''S8'']\<rparr>,
      chemicals = None, usesControlled = True, schedules = None\<rparr>"

definition pharmacyRequest :: request where
  "pharmacyRequest = \<lparr>postcode = Some ''3066'', activityDescription = Some ''Pharmacy'',
                       anzsicCode = None, businessStructure = None,
                       controlledSubstances = Some pharmacyFlags\<rparr>"

text \<open>The flags \<open>{usesControlled: true, alcohol: {serveOnPremise: true}}\<close>.\<close>

definition alcoholOnly :: controlledSubstances where
  "alcoholOnly =
     \<lparr>alcohol = Some \<lparr>serveOnPremise = True, takeaway = False, brewOrDistil = False\<rparr>,
      medicines = None, chemicals = None, usesControlled = True, schedules = None\<rparr>"

text \<open>
  A world where every session starts and ends without error and every search page
  comes back empty; and the same world except that \<open>driver.quit()\<close> fails.
\<close>

definition emptyPage :: page where
  "emptyPage = \<lparr>failure = None, present = (\<lambda>sel. True), source = []\<rparr>"

definition quietEnv :: env where
  "quietEnv = \<lparr>builds = (\<lambda>n. True), quits = (\<lambda>driver. True),
               respond = (\<lambda>n keywords pc. emptyPage)\<rparr>"


definition freshBrowser :: browser where
  "freshBrowser = \<lparr>built = 0, live = [], quitCalls = [], issued = []\<rparr>"





section \<open>Properties of dedupeBy\<close>

lemma dedupe_loop_out: "dedupe_loop k xs seen out = out @ dedupe_loop k xs seen []"
proof (induction xs arbitrary: seen out)
  case Nil
  show ?case by simp
next
  case (Cons x xs)
  have a: "dedupe_loop k xs (insert (k x) seen) (out @ [x])
             = (out @ [x]) @ dedupe_loop k xs (insert (k x) seen) []"
    by (rule Cons.IH)
  have b: "dedupe_loop k xs (insert (k x) seen) [x]
             = [x] @ dedupe_loop k xs (insert (k x) seen) []"
    by (rule Cons.IH)
  show ?case
    using a b Cons.IH [of seen out] by (simp add: Let_def)
qed

lemma dedupe_loop_Cons:
  "dedupe_loop k (x # xs) seen [] =
     (if k x \<in> seen then dedupe_loop k xs seen []
      else x # dedupe_loop k xs (insert (k x) seen) [])"
  using dedupe_loop_out [of k xs "insert (k x) seen" "[x]"] by (simp add: Let_def)

lemma dedupe_loop_nths:
  "dedupe_loop k xs seen [] =
     nths xs {i. k (xs ! i) \<notin> seen \<and> (\<forall>j<i. k (xs ! j) \<noteq> k (xs ! i))}"
proof (induction xs arbitrary: seen)
  case Nil
  show ?case by simp
next
  case (Cons x xs)
  let ?A = "{i. k ((x # xs) ! i) \<notin> seen \<and> (\<forall>j<i. k ((x # xs) ! j) \<noteq> k ((x # xs) ! i))}"
  have shift: "{j. Suc j \<in> ?A} =
      {j. k (xs ! j) \<notin> seen \<and> k x \<noteq> k (xs ! j) \<and> (\<forall>i<j. k (xs ! i) \<noteq> k (xs ! j))}"
    by (auto simp: less_Suc_eq_0_disj)
  show ?case
  proof (cases "k x \<in> seen")
    case True
    have "{j. Suc j \<in> ?A} = {j. k (xs ! j) \<notin> seen \<and> (\<forall>i<j. k (xs ! i) \<noteq> k (xs ! j))}"
      unfolding shift using True by auto
    moreover have "0 \<notin> ?A" using True by simp
    ultimately show ?thesis
      using True Cons.IH [of seen] by (simp add: dedupe_loop_Cons nths_Cons del: dedupe_loop.simps)
  next
    case False
    have "{j. Suc j \<in> ?A} =
        {j. k (xs ! j) \<notin> insert (k x) seen \<and> (\<forall>i<j. k (xs ! i) \<noteq> k (xs ! j))}"
      unfolding shift by auto
    moreover have "0 \<in> ?A" using False by simp
    ultimately show ?thesis
      using False Cons.IH [of "insert (k x) seen"] by (simp add: dedupe_loop_Cons nths_Cons del: dedupe_loop.simps)
  qed
qed

lemma dedupe_loop_keys:
  "distinct (map k (dedupe_loop k xs seen [])) \<and> k ` set (dedupe_loop k xs seen []) \<inter> seen = {}
     \<and> set (dedupe_loop k xs seen []) \<subseteq> set xs"
proof (induction xs arbitrary: seen)
  case Nil
  show ?case by simp
next
  case (Cons x xs)
  show ?case
    using Cons.IH [of seen] Cons.IH [of "insert (k x) seen"]
    by (auto simp: dedupe_loop_Cons simp del: dedupe_loop.simps)
qed

lemma dedupe_loop_fixed:
  "distinct (map k ys) \<Longrightarrow> k ` set ys \<inter> seen = {} \<Longrightarrow> dedupe_loop k ys seen [] = ys"
proof (induction ys arbitrary: seen)
  case Nil
  show ?case by simp
next
  case (Cons y ys)
  have "k y \<notin> seen" using Cons.prems(2) by auto
  moreover have "dedupe_loop k ys (insert (k y) seen) [] = ys"
    using Cons.prems by (intro Cons.IH) auto
  ultimately show ?case by (simp add: dedupe_loop_Cons del: dedupe_loop.simps)
qed

lemma dedupeBy_idem: "dedupeBy (dedupeBy xs k) k = dedupeBy xs k"
  unfolding dedupeBy_def
  using dedupe_loop_keys [of k xs "{}"] by (intro dedupe_loop_fixed) auto

lemma dedupeBy_nths: "dedupeBy xs k = nths xs {i. \<forall>j<i. k (xs ! j) \<noteq> k (xs ! i)}"
  unfolding dedupeBy_def using dedupe_loop_nths [of k xs "{}"] by simp

lemma dedupeBy_pair:
  "dedupeBy [a, b] k = (if k a = k b then [a] else [a, b])"
  by (simp add: dedupeBy_def Let_def)

text \<open>
  C5. \<open>dedupe\<close> is idempotent, and its output is the subsequence of the input that holds,
  in input order, the first occurrence of each key: the element at index \<open>i\<close> is kept
  exactly when no earlier element has its key.
\<close>

theorem C5_dedupe_idempotent_first_occurrence:
  "dedupe (dedupe x) = dedupe x
   \<and> dedupe x = nths x {i. \<forall>j<i. itemKey (x ! j) \<noteq> itemKey (x ! i)}
   \<and> subseq (dedupe x) x"
proof -
  have "dedupe x = nths x {i. \<forall>j<i. itemKey (x ! j) \<noteq> itemKey (x ! i)}"
    unfolding dedupe_def by (rule dedupeBy_nths)
  moreover have "subseq (nths x {i. \<forall>j<i. itemKey (x ! j) \<noteq> itemKey (x ! i)}) x"
    unfolding subseq_conv_nths by blast
  moreover have "dedupe (dedupe x) = dedupe x"
    unfolding dedupe_def by (rule dedupeBy_idem)
  ultimately show ?thesis by simp
qed

theorem C5_dedupe_witness:
  "dedupe (dedupe [recordA, recordB, recordA\<lparr>activity := ''bar''\<rparr>])
     = dedupe [recordA, recordB, recordA\<lparr>activity := ''bar''\<rparr>]
   \<and> dedupe [recordA, recordB, recordA\<lparr>activity := ''bar''\<rparr>] = [recordA]
   \<and> subseq [recordA] [recordA, recordB, recordA\<lparr>activity := ''bar''\<rparr>]"
proof -
  let ?xs = "[recordA, recordB, recordA\<lparr>activity := ''bar''\<rparr>]"
  have e: "dedupe ?xs = [recordA]"
    by (simp add: dedupe_def dedupeBy_def itemKey_def tpl_def recordA_def recordB_def)
  note t = C5_dedupe_idempotent_first_occurrence [of ?xs]
  have i: "dedupe (dedupe ?xs) = dedupe ?xs" using t by (rule conjunct1)
  have "subseq (dedupe ?xs) ?xs" using t by (elim conjE)
  then have q: "subseq [recordA] ?xs" unfolding e .
  show ?thesis using i e q by (intro conjI)
qed

section \<open>The postcode table\<close>

lemma digit_not_space_sign:
  "isDigit c \<Longrightarrow> \<not> isWhiteSpace c \<and> c \<noteq> CHR ''+'' \<and> c \<noteq> CHR ''-''"
  by (auto simp: isDigit_def isWhiteSpace_def)

lemma parseInt10_digits:
  assumes "pc \<noteq> []" and "list_all isDigit pc"
  shows "parseInt10 pc = Some (decimalValue pc)"
proof -
  obtain c cs where pc: "pc = c # cs" using assms(1) by (cases pc) auto
  have c: "isDigit c" using assms(2) pc by simp
  have tw: "takeWhile isDigit pc = pc"
    using assms(2) by (simp add: list_all_iff)
  have dw: "dropWhile isWhiteSpace pc = pc"
    using digit_not_space_sign [OF c] pc by simp
  show ?thesis
    unfolding parseInt10_def dw using digit_not_space_sign [OF c] tw assms(1)
    by (simp add: pc Let_def)
qed

lemma parseInt10_no_number:
  assumes "\<forall>c \<in> set (take 1 (dropWhile isWhiteSpace pc)).
             \<not> isDigit c \<and> c \<noteq> CHR ''+'' \<and> c \<noteq> CHR ''-''"
  shows "parseInt10 pc = None"
proof (cases "dropWhile isWhiteSpace pc")
  case Nil
  show ?thesis unfolding parseInt10_def Nil by simp
next
  case (Cons c cs)
  then have "\<not> isDigit c \<and> c \<noteq> CHR ''+'' \<and> c \<noteq> CHR ''-''" using assms by simp
  then show ?thesis unfolding parseInt10_def Cons by simp
qed

lemma mapState_in_range:
  assumes p: "parseInt10 pc = Some n" and r: "r \<in> set stateRanges" and i: "inRange n r"
  shows "mapStateFromPostcode pc = Some (snd (snd r))"
proof -
  have "r = (200, 299, ''ACT'') \<or> r = (2600, 2618, ''ACT'') \<or> r = (2900, 2999, ''ACT'')
      \<or> r = (800, 899, ''NT'') \<or> r = (1000, 2599, ''NSW'') \<or> r = (2619, 2898, ''NSW'')
      \<or> r = (3000, 3999, ''VIC'') \<or> r = (4000, 4999, ''QLD'') \<or> r = (5000, 5799, ''SA'')
      \<or> r = (6000, 6799, ''WA'') \<or> r = (7000, 7799, ''TAS'')"
    using r unfolding stateRanges_def by simp
  then show ?thesis
    using i unfolding mapStateFromPostcode_def p inRange_def
    by (elim disjE) simp_all
qed

lemma mapState_out_of_range:
  assumes p: "parseInt10 pc = Some n" and "\<forall>r \<in> set stateRanges. \<not> inRange n r"
  shows "mapStateFromPostcode pc = None"
proof -
  have "\<not> (200 \<le> n \<and> n \<le> 299)" "\<not> (2600 \<le> n \<and> n \<le> 2618)" "\<not> (2900 \<le> n \<and> n \<le> 2999)"
     "\<not> (800 \<le> n \<and> n \<le> 899)" "\<not> (1000 \<le> n \<and> n \<le> 2599)" "\<not> (2619 \<le> n \<and> n \<le> 2898)"
     "\<not> (3000 \<le> n \<and> n \<le> 3999)" "\<not> (4000 \<le> n \<and> n \<le> 4999)" "\<not> (5000 \<le> n \<and> n \<le> 5799)"
     "\<not> (6000 \<le> n \<and> n \<le> 6799)" "\<not> (7000 \<le> n \<and> n \<le> 7799)"
    using assms(2) unfolding stateRanges_def inRange_def by simp_all
  then show ?thesis
    unfolding mapStateFromPostcode_def p by simp
qed

lemma stateRanges_disjoint: "pairwiseDisjoint stateRanges"
  by (simp add: stateRanges_def overlap_def)

text \<open>
  C4, as stated, fails: the text \<open>3000abc\<close> is not a number, yet \<open>parseInt\<close> reads its
  leading digits and the postcode resolves to VIC.
\<close>

theorem C4_counterexample:
  "\<not> list_all isDigit ''3000abc'' \<and> mapStateFromPostcode ''3000abc'' = Some ''VIC''"
  by code_simp

text \<open>
  C4, amended. \<open>mapStateFromPostcode\<close> decides on the integer that \<open>parseInt\<close> reads at the
  start of the text (after white space and one sign), which for a text of digits only is
  its decimal value. If that integer lies in a range of the table, the result is the
  state of that range; if the text starts with no integer (in particular if its first
  character after white space is neither a digit nor a sign), the result is \<open>null\<close>; the
  ranges of the table are pairwise disjoint; and an integer outside every range gives
  \<open>null\<close>.
\<close>

theorem C4_mapStateFromPostcode:
  "(parseInt10 pc = Some n \<longrightarrow> r \<in> set stateRanges \<longrightarrow> inRange n r
      \<longrightarrow> mapStateFromPostcode pc = Some (snd (snd r)))
   \<and> (pc \<noteq> [] \<longrightarrow> list_all isDigit pc \<longrightarrow> parseInt10 pc = Some (decimalValue pc))
   \<and> (parseInt10 pc = None \<longrightarrow> mapStateFromPostcode pc = None)
   \<and> ((\<forall>c \<in> set (take 1 (dropWhile isWhiteSpace pc)).
          \<not> isDigit c \<and> c \<noteq> CHR ''+'' \<and> c \<noteq> CHR ''-'') \<longrightarrow> mapStateFromPostcode pc = None)
   \<and> pairwiseDisjoint stateRanges
   \<and> (parseInt10 pc = Some n \<longrightarrow> (\<forall>r \<in> set stateRanges. \<not> inRange n r)
      \<longrightarrow> mapStateFromPostcode pc = None)"
proof -
  have "parseInt10 pc = None \<longrightarrow> mapStateFromPostcode pc = None"
    by (simp add: mapStateFromPostcode_def)
  moreover have "(\<forall>c \<in> set (take 1 (dropWhile isWhiteSpace pc)).
          \<not> isDigit c \<and> c \<noteq> CHR ''+'' \<and> c \<noteq> CHR ''-'') \<longrightarrow> mapStateFromPostcode pc = None"
    using parseInt10_no_number [of pc] by (simp add: mapStateFromPostcode_def)
  ultimately show ?thesis
    using mapState_in_range [of pc n r] mapState_out_of_range [of pc n]
          parseInt10_digits [of pc] stateRanges_disjoint
    by blast
qed

theorem C4_mapStateFromPostcode_witness:
  "parseInt10 ''3066'' = Some 3066 \<and> (3000, 3999, ''VIC'') \<in> set stateRanges
   \<and> inRange 3066 (3000, 3999, ''VIC'') \<and> mapStateFromPostcode ''3066'' = Some ''VIC''
   \<and> parseInt10 ''abc'' = None \<and> mapStateFromPostcode ''abc'' = None
   \<and> parseInt10 ''9999'' = Some 9999 \<and> list_all (\<lambda>r. \<not> inRange 9999 r) stateRanges
   \<and> mapStateFromPostcode ''9999'' = None"
proof -
  have a: "parseInt10 ''3066'' = Some 3066" by code_simp
  have b: "(3000, 3999, ''VIC'') \<in> set stateRanges" by (simp add: stateRanges_def)
  have c: "inRange 3066 (3000, 3999, ''VIC'')" by (simp add: inRange_def)
  have d: "parseInt10 ''abc'' = None" by code_simp
  have e: "parseInt10 ''9999'' = Some 9999" by code_simp
  have f: "\<forall>r \<in> set stateRanges. \<not> inRange 9999 r"
    by (simp add: stateRanges_def inRange_def)
  have g: "list_all (\<lambda>r. \<not> inRange 9999 r) stateRanges"
    using f by (simp add: list_all_iff)
  show ?thesis
    using a b c d e f g
      C4_mapStateFromPostcode [of "''3066''" 3066 "(3000, 3999, ''VIC'')"]
      C4_mapStateFromPostcode [of "''abc''" 0 "(0, 0, [])"]
      C4_mapStateFromPostcode [of "''9999''" 9999 "(0, 0, [])"]
    by simp
qed

section \<open>Deduplication of records\<close>

text \<open>
  C3 at a failing input. The triples of \<open>recordA\<close> and \<open>recordB\<close> differ in obligation and
  in regulator, so both should be kept; but both render to the key
  \<open>Food|Safety|Agency|https://ablis.business.gov.au/\<close>, and \<open>dedupe\<close> drops the second.
  The two records are what the extractor reads from the two cards of \<open>twoCards\<close>, of which
  it returns only the first.
\<close>

theorem C3_dedupe_merges_distinct_triples:
  "(obligation recordA, regulator recordA, source_url recordA)
     \<noteq> (obligation recordB, regulator recordB, source_url recordB)
   \<and> itemKey recordA = itemKey recordB
   \<and> dedupe [recordA, recordB] = [recordA]
   \<and> parse_chunks (split_regex cardRe twoCards) ''cafe'' ''3066'' = [recordA, recordB]
   \<and> parseAblisResults twoCards ''cafe'' ''3066'' = [recordA]"
proof -
  have c: "parse_chunks (split_regex cardRe twoCards) ''cafe'' ''3066'' = [recordA, recordB]"
    by code_simp
  have d: "dedupe [recordA, recordB] = [recordA]"
    by (simp add: dedupe_def dedupeBy_pair itemKey_def tpl_def recordA_def recordB_def)
  have p: "parseAblisResults twoCards ''cafe'' ''3066'' = [recordA]"
    unfolding parseAblisResults_def c using d by (simp add: dedupe_def)
  show ?thesis
    using c d p by (simp add: itemKey_def tpl_def recordA_def recordB_def)
qed

text \<open>The exact behaviour on two records: the second is dropped exactly when the keys agree.\<close>

lemma dedupe_pair:
  "dedupe [a, b] = (if itemKey a = itemKey b then [a] else [a, b])"
  by (simp add: dedupe_def dedupeBy_pair)

lemma itemKey_same_triple:
  "obligation a = obligation b \<Longrightarrow> regulator a = regulator b \<Longrightarrow> source_url a = source_url b
     \<Longrightarrow> itemKey a = itemKey b"
  by (simp add: itemKey_def)

section \<open>Grouping by level\<close>

lemma group_loop_filter:
  "group_loop items lv =
     \<lparr>local = local lv @ filter (\<lambda>it. str_includes (levelText it) ''local'') items,
      state = state lv @ filter (\<lambda>it. \<not> str_includes (levelText it) ''local''
                \<and> str_includes (levelText it) ''state'') items,
      federal = federal lv @ filter (\<lambda>it. \<not> str_includes (levelText it) ''local''
                \<and> \<not> str_includes (levelText it) ''state''
                \<and> (str_includes (levelText it) ''federal''
                    \<or> str_includes (levelText it) ''commonwealth'')) items,
      unknown = unknown lv @ filter (\<lambda>it. \<not> str_includes (levelText it) ''local''
                \<and> \<not> str_includes (levelText it) ''state''
                \<and> \<not> str_includes (levelText it) ''federal''
                \<and> \<not> str_includes (levelText it) ''commonwealth'') items\<rparr>"
proof (induction items arbitrary: lv)
  case Nil
  show ?case by simp
next
  case (Cons it items)
  show ?case
    by (simp add: Cons.IH Let_def)
qed

lemma four_way_mset:
  "mset (filter (\<lambda>x. A x) xs)
   + mset (filter (\<lambda>x. \<not> A x \<and> B x) xs)
   + mset (filter (\<lambda>x. \<not> A x \<and> \<not> B x \<and> (C x \<or> D x)) xs)
   + mset (filter (\<lambda>x. \<not> A x \<and> \<not> B x \<and> \<not> C x \<and> \<not> D x) xs) = mset xs"
  by (induction xs) auto

lemma four_way_length:
  "length (filter (\<lambda>x. A x) xs)
   + length (filter (\<lambda>x. \<not> A x \<and> B x) xs)
   + length (filter (\<lambda>x. \<not> A x \<and> \<not> B x \<and> (C x \<or> D x)) xs)
   + length (filter (\<lambda>x. \<not> A x \<and> \<not> B x \<and> \<not> C x \<and> \<not> D x) xs) = length xs"
  by (induction xs) auto

lemma levelText_Local_Council:
  "level it = Some ''Local Council'' \<Longrightarrow> levelText it = ''local council''"
  unfolding levelText_def by (simp add: js_or_def truthy_def tpl_def) code_simp

lemma levelText_null: "level it = None \<Longrightarrow> levelText it = []"
  by (simp add: levelText_def js_or_def truthy_def tpl_def toLowerCase_def)

lemma includes_local_council: "str_includes ''local council'' ''local''"
  by code_simp

text \<open>
  C6. \<open>groupByLevel\<close> partitions its input. Each bucket is the sublist of the input, in
  input order, selected by one of four conditions on the lower-cased level text
  (\<open>local\<close>; else \<open>state\<close>; else \<open>federal\<close> or \<open>commonwealth\<close>; else unknown), of which
  exactly one holds for any record: so the bucket sizes add up to the input size, the
  buckets together hold every record as often as the input does, and no record is in two
  buckets. A record with level \<open>Local Council\<close> is in \<open>local\<close>, one with level \<open>null\<close> in
  \<open>unknown\<close>.
\<close>

theorem C6_groupByLevel_partition:
  "local (groupByLevel items) = filter (\<lambda>it. str_includes (levelText it) ''local'') items
   \<and> state (groupByLevel items) =
       filter (\<lambda>it. \<not> str_includes (levelText it) ''local''
                    \<and> str_includes (levelText it) ''state'') items
   \<and> federal (groupByLevel items) =
       filter (\<lambda>it. \<not> str_includes (levelText it) ''local''
                    \<and> \<not> str_includes (levelText it) ''state''
                    \<and> (str_includes (levelText it) ''federal''
                        \<or> str_includes (levelText it) ''commonwealth'')) items
   \<and> unknown (groupByLevel items) =
       filter (\<lambda>it. \<not> str_includes (levelText it) ''local''
                    \<and> \<not> str_includes (levelText it) ''state''
                    \<and> \<not> str_includes (levelText it) ''federal''
                    \<and> \<not> str_includes (levelText it) ''commonwealth'') items
   \<and> length (local (groupByLevel items)) + length (state (groupByLevel items))
       + length (federal (groupByLevel items)) + length (unknown (groupByLevel items))
       = length items
   \<and> mset (local (groupByLevel items)) + mset (state (groupByLevel items))
       + mset (federal (groupByLevel items)) + mset (unknown (groupByLevel items))
       = mset items
   \<and> set (local (groupByLevel items)) \<inter> set (state (groupByLevel items)) = {}
   \<and> set (local (groupByLevel items)) \<inter> set (federal (groupByLevel items)) = {}
   \<and> set (local (groupByLevel items)) \<inter> set (unknown (groupByLevel items)) = {}
   \<and> set (state (groupByLevel items)) \<inter> set (federal (groupByLevel items)) = {}
   \<and> set (state (groupByLevel items)) \<inter> set (unknown (groupByLevel items)) = {}
   \<and> set (federal (groupByLevel items)) \<inter> set (unknown (groupByLevel items)) = {}
   \<and> (it \<in> set items \<longrightarrow> level it = Some ''Local Council''
        \<longrightarrow> it \<in> set (local (groupByLevel items)))
   \<and> (it \<in> set items \<longrightarrow> level it = None \<longrightarrow> it \<in> set (unknown (groupByLevel items)))"
proof -
  let ?g = "groupByLevel items"
  have l: "local ?g = filter (\<lambda>it. str_includes (levelText it) ''local'') items"
    and s: "state ?g = filter (\<lambda>it. \<not> str_includes (levelText it) ''local''
                    \<and> str_includes (levelText it) ''state'') items"
    and f: "federal ?g = filter (\<lambda>it. \<not> str_includes (levelText it) ''local''
                    \<and> \<not> str_includes (levelText it) ''state''
                    \<and> (str_includes (levelText it) ''federal''
                        \<or> str_includes (levelText it) ''commonwealth'')) items"
    and u: "unknown ?g = filter (\<lambda>it. \<not> str_includes (levelText it) ''local''
                    \<and> \<not> str_includes (levelText it) ''state''
                    \<and> \<not> str_includes (levelText it) ''federal''
                    \<and> \<not> str_includes (levelText it) ''commonwealth'') items"
    unfolding groupByLevel_def group_loop_filter by simp_all
  have len: "length (local ?g) + length (state ?g) + length (federal ?g) + length (unknown ?g)
       = length items"
    unfolding l s f u by (rule four_way_length)
  have ms: "mset (local ?g) + mset (state ?g) + mset (federal ?g) + mset (unknown ?g)
       = mset items"
    unfolding l s f u by (rule four_way_mset)
  have d1: "set (local ?g) \<inter> set (state ?g) = {}" unfolding l s by auto
  have d2: "set (local ?g) \<inter> set (federal ?g) = {}" unfolding l f by auto
  have d3: "set (local ?g) \<inter> set (unknown ?g) = {}" unfolding l u by auto
  have d4: "set (state ?g) \<inter> set (federal ?g) = {}" unfolding s f by auto
  have d5: "set (state ?g) \<inter> set (unknown ?g) = {}" unfolding s u by auto
  have d6: "set (federal ?g) \<inter> set (unknown ?g) = {}" unfolding f u by auto
  have lc: "it \<in> set items \<longrightarrow> level it = Some ''Local Council'' \<longrightarrow> it \<in> set (local ?g)"
    unfolding l using includes_local_council by (simp add: levelText_Local_Council)
  have nu: "it \<in> set items \<longrightarrow> level it = None \<longrightarrow> it \<in> set (unknown ?g)"
    unfolding u by (simp add: levelText_null)
  show ?thesis
    using l s f u len ms d1 d2 d3 d4 d5 d6 lc nu by (intro conjI)
qed

theorem C6_groupByLevel_witness:
  "recordA\<lparr>level := Some ''Local Council''\<rparr>
       \<in> set (local (groupByLevel [recordA\<lparr>level := Some ''Local Council''\<rparr>, recordB]))
   \<and> recordB \<in> set (unknown (groupByLevel [recordA\<lparr>level := Some ''Local Council''\<rparr>, recordB]))
   \<and> length (local (groupByLevel [recordA\<lparr>level := Some ''Local Council''\<rparr>, recordB]))
       + length (state (groupByLevel [recordA\<lparr>level := Some ''Local Council''\<rparr>, recordB]))
       + length (federal (groupByLevel [recordA\<lparr>level := Some ''Local Council''\<rparr>, recordB]))
       + length (unknown (groupByLevel [recordA\<lparr>level := Some ''Local Council''\<rparr>, recordB]))
       = 2"
proof -
  let ?a = "recordA\<lparr>level := Some ''Local Council''\<rparr>"
  have la: "level ?a = Some ''Local Council''" by simp
  have lb: "level recordB = None" by (simp add: recordB_def)
  have ma: "?a \<in> set [?a, recordB]" by simp
  have mb: "recordB \<in> set [?a, recordB]" by simp
  have m1: "?a \<in> set (local (groupByLevel [?a, recordB]))"
    using C6_groupByLevel_partition [of "[?a, recordB]" ?a] ma la by blast
  have m2: "recordB \<in> set (unknown (groupByLevel [?a, recordB]))"
    using C6_groupByLevel_partition [of "[?a, recordB]" recordB] mb lb by blast
  have m3: "length (local (groupByLevel [?a, recordB]))
       + length (state (groupByLevel [?a, recordB]))
       + length (federal (groupByLevel [?a, recordB]))
       + length (unknown (groupByLevel [?a, recordB])) = length [?a, recordB]"
    using C6_groupByLevel_partition [of "[?a, recordB]" ?a] by blast
  show ?thesis using m1 m2 m3 by simp
qed

section \<open>The session\<close>




section \<open>Queries issued by the pipeline\<close>

lemma searchAblis_state:
  "snd (searchAblis e d a p b) = b\<lparr>issued := issued b @ [(d, a, p)]\<rparr>"
  by (simp add: searchAblis_def Let_def split: option.splits)

lemma searchOrEmpty_state:
  "snd (searchOrEmpty e d a p b) = b\<lparr>issued := issued b @ [(d, a, p)]\<rparr>"
  using searchAblis_state [of e d a p b]
  by (auto simp: searchOrEmpty_def split: prod.splits sum.splits)

lemma supplemental_loop_state:
  "snd (supplemental_loop e d p qs extra b) = b\<lparr>issued := issued b @ map (\<lambda>q. (d, q, p)) qs\<rparr>"
proof (induction qs arbitrary: extra b)
  case Nil
  show ?case by simp
next
  case (Cons q qs)
  show ?case
    by (simp add: split_def Cons.IH searchOrEmpty_state)
qed

lemma supplementalQueries_state:
  "snd (supplementalQueries e d p fl b) =
     b\<lparr>issued := issued b @ map (\<lambda>q. (d, q, p)) (dedupeBy (wants fl) (\<lambda>x. x))\<rparr>"
  by (simp add: supplementalQueries_def split_def supplemental_loop_state)

text \<open>
  The body changes the state only by the queries it issues: the primary one, the one
  with the ANZSIC code if a code is given, and the supplemental plan.
\<close>

lemma scrapeBody_state:
  "snd (scrapeBody e req p a d b) =
     b\<lparr>issued := issued b @ [(d, a, p)]
          @ (if truthy (anzsicCode req) then [(d, a @ '' '' @ tpl (anzsicCode req), p)] else [])
          @ (case controlledSubstances req of
               None \<Rightarrow> []
             | Some cs \<Rightarrow>
                 if usesControlled cs
                 then map (\<lambda>q. (d, q, p)) (dedupeBy (wants (flagsOf cs)) (\<lambda>x. x))
                 else [])\<rparr>"
  by (simp add: scrapeBody_def split_def Let_def searchOrEmpty_state supplementalQueries_state
           split: option.splits sum.splits)

lemma scrapeBody_throws:
  "fst (scrapeBody e req p a d b) = Inl (TypeError ''undefined is not iterable'')"
  by (simp add: scrapeBody_def split_def Let_def spread_def SOURCES_def
           split: option.splits)

lemma scrapeAll_run:
  assumes "truthy (request.postcode req)" and "truthy (activityDescription req)"
    and "builds e (built b)"
  shows "scrapeAll e (Some req) b =
           (case fst (quit e (built b)
              (snd (scrapeBody e req (tpl (request.postcode req)) (tpl (activityDescription req))
                      (built b) (b\<lparr>built := Suc (built b), live := built b # live b\<rparr>)))) of
              Some err \<Rightarrow> Inl err
            | None \<Rightarrow>
                fst (scrapeBody e req (tpl (request.postcode req)) (tpl (activityDescription req))
                   (built b) (b\<lparr>built := Suc (built b), live := built b # live b\<rparr>)),
            snd (quit e (built b)
              (snd (scrapeBody e req (tpl (request.postcode req)) (tpl (activityDescription req))
                      (built b) (b\<lparr>built := Suc (built b), live := built b # live b\<rparr>)))))"
  using assms by (simp add: scrapeAll_def withDriver_def Let_def split_def)

text \<open>
  A request without postcode or activity description, or no request body at all, is
  rejected with the state untouched: no session is built and no query issued.
\<close>

lemma scrapeAll_rejects:
  assumes "\<not> truthy (request.postcode req) \<or> \<not> truthy (activityDescription req)"
  shows "scrapeAll e (Some req) b = (Inl (Error ''postcode and activityDescription are required''), b)"
  using assms by (auto simp: scrapeAll_def)

lemma scrapeAll_rejects_no_body:
  "scrapeAll e None b = (Inl (Error ''postcode and activityDescription are required''), b)"
  by (simp add: scrapeAll_def truthy_def)

text \<open>
  C1 at its failing inputs, which are all the valid requests. With a postcode and an
  activity description present and the session built, the run does not return an
  envelope: after the queries, line 316 spreads \<open>SOURCES.GOVHACK_LINKS\<close>, a key that
  \<open>SOURCES\<close> does not define, and the \<open>TypeError\<close> leaves \<open>scrapeAll\<close> (or, should
  \<open>driver.quit()\<close> fail on the way out, the error of \<open>quit\<close> does). The queries were issued
  by then, and the session is closed when \<open>quit\<close> succeeded.
\<close>

theorem C1_scrapeAll_throws_on_valid_request:
  assumes "truthy (request.postcode req)" and "truthy (activityDescription req)"
    and "builds e (built b)"
  shows "fst (scrapeAll e (Some req) b) =
           (if quits e (built b) then Inl (TypeError ''undefined is not iterable'')
            else Inl (WebDriverError ''quit failed''))
         \<and> (quits e (built b) \<longrightarrow> built b \<notin> set (live (snd (scrapeAll e (Some req) b))))
         \<and> issued (snd (scrapeAll e (Some req) b)) \<noteq> issued b"
  unfolding scrapeAll_run [OF assms]
  by (simp add: scrapeBody_throws scrapeBody_state quit_def)

theorem C1_scrapeAll_throws_witness:
  "fst (scrapeAll quietEnv (Some cafeRequest) freshBrowser)
     = Inl (TypeError ''undefined is not iterable'')
   \<and> live (snd (scrapeAll quietEnv (Some cafeRequest) freshBrowser)) = []
   \<and> issued (snd (scrapeAll quietEnv (Some cafeRequest) freshBrowser)) \<noteq> []"
proof -
  have p: "truthy (request.postcode cafeRequest)" by (simp add: cafeRequest_def truthy_def)
  have a: "truthy (activityDescription cafeRequest)" by (simp add: cafeRequest_def truthy_def)
  have b: "builds quietEnv (built freshBrowser)" by (simp add: quietEnv_def)
  have q: "quits quietEnv (built freshBrowser)" by (simp add: quietEnv_def)
  have l: "live (snd (scrapeAll quietEnv (Some cafeRequest) freshBrowser)) = []"
    unfolding scrapeAll_run [OF p a b]
    by (simp add: scrapeBody_state quit_def quietEnv_def freshBrowser_def)
  show ?thesis
    using C1_scrapeAll_throws_on_valid_request [OF p a b] q l by (simp add: freshBrowser_def)
qed

lemma poisons_permit_never_planned:
  "controlledSubstances.schedules cs = None \<Longrightarrow> ''poisons permit'' \<notin> set (wants (flagsOf cs))"
  by (auto simp: wants_def flagsOf_def split: option.splits)

lemma set_dedupeBy_subset: "set (dedupeBy xs k) \<subseteq> set xs"
  unfolding dedupeBy_def using dedupe_loop_keys [of k xs "{}"] by blast

text \<open>
  C2 at its failing inputs. For a request of the documented shape, with the schedule
  list inside \<open>medicines\<close> and no property \<open>schedules\<close> on \<open>controlledSubstances\<close> itself,
  the queries of a run are the primary one, the ANZSIC one if a code is given, and the
  supplemental plan; and \<open>poisons permit\<close> is not in that plan, whatever \<open>medicines\<close>
  holds: line 299 replaces \<open>medicines.schedules\<close> by \<open>controlledSubstances.schedules || []\<close>,
  which is empty for this shape.
\<close>

theorem C2_nested_schedules_dropped:
  assumes "truthy (request.postcode req)" and "truthy (activityDescription req)"
    and "builds e (built b)"
    and "controlledSubstances req = Some cs" and "usesControlled cs"
    and "controlledSubstances.schedules cs = None"
  shows "issued (snd (scrapeAll e (Some req) b)) =
           issued b
           @ [(built b, tpl (activityDescription req), tpl (request.postcode req))]
           @ (if truthy (anzsicCode req)
              then [(built b, tpl (activityDescription req) @ '' '' @ tpl (anzsicCode req),
                     tpl (request.postcode req))]
              else [])
           @ map (\<lambda>q. (built b, q, tpl (request.postcode req)))
               (dedupeBy (wants (flagsOf cs)) (\<lambda>x. x))
         \<and> ''poisons permit'' \<notin> set (dedupeBy (wants (flagsOf cs)) (\<lambda>x. x))"
proof -
  have "''poisons permit'' \<notin> set (wants (flagsOf cs))"
    using assms(6) by (rule poisons_permit_never_planned)
  then have n: "''poisons permit'' \<notin> set (dedupeBy (wants (flagsOf cs)) (\<lambda>x. x))"
    using set_dedupeBy_subset [of "wants (flagsOf cs)" "\<lambda>x. x"] by blast
  have i: "issued (snd (scrapeAll e (Some req) b)) =
           issued b
           @ [(built b, tpl (activityDescription req), tpl (request.postcode req))]
           @ (if truthy (anzsicCode req)
              then [(built b, tpl (activityDescription req) @ '' '' @ tpl (anzsicCode req),
                     tpl (request.postcode req))]
              else [])
           @ map (\<lambda>q. (built b, q, tpl (request.postcode req)))
               (dedupeBy (wants (flagsOf cs)) (\<lambda>x. x))"
    unfolding scrapeAll_run [OF assms(1,2,3)] scrapeBody_state
    using assms(4,5) by (simp add: quit_def)
  show ?thesis using i n by (intro conjI)
qed

text \<open>
  The pharmacy request dispenses medicines and lists the schedule \<open>S8\<close> inside
  \<open>medicines\<close>: the run issues three queries, none for \<open>poisons permit\<close>.
\<close>

theorem C2_nested_schedules_witness:
  "issued (snd (scrapeAll quietEnv (Some pharmacyRequest) freshBrowser))
     = [(0, ''Pharmacy'', ''3066''), (0, ''scheduled medicines'', ''3066''),
        (0, ''pharmacy'', ''3066'')]"
proof -
  have p: "truthy (request.postcode pharmacyRequest)"
    by (simp add: pharmacyRequest_def truthy_def)
  have a: "truthy (activityDescription pharmacyRequest)"
    by (simp add: pharmacyRequest_def truthy_def)
  have b: "builds quietEnv (built freshBrowser)" by (simp add: quietEnv_def)
  have c: "controlledSubstances pharmacyRequest = Some pharmacyFlags"
    by (simp add: pharmacyRequest_def)
  have u: "usesControlled pharmacyFlags" by (simp add: pharmacyFlags_def)
  have s: "controlledSubstances.schedules pharmacyFlags = None" by (simp add: pharmacyFlags_def)
  have w: "wants (flagsOf pharmacyFlags) = [''scheduled medicines'', ''pharmacy'']"
    by (simp add: wants_def flagsOf_def pharmacyFlags_def)
  have d: "dedupeBy [''scheduled medicines'', ''pharmacy''] (\<lambda>x. x)
             = [''scheduled medicines'', ''pharmacy'']"
    by (simp add: dedupeBy_def)
  show ?thesis
    using C2_nested_schedules_dropped [OF p a b c u s] unfolding w d
    by (simp add: pharmacyRequest_def freshBrowser_def truthy_def tpl_def)
qed

text \<open>Given the same \<open>medicines\<close> object unchanged, the planner does plan the phrase.\<close>

lemma wants_nested_schedules:
  "wants \<lparr>alcohol = alcohol pharmacyFlags, medicines = medicines pharmacyFlags,
          chemicals = chemicals pharmacyFlags\<rparr>
     = [''scheduled medicines'', ''pharmacy'', ''poisons permit'']"
  by (simp add: wants_def pharmacyFlags_def)

text \<open>
  C7. For the flags \<open>{usesControlled: true, alcohol: {serveOnPremise: true}}\<close> the plan is
  exactly \<open>liquor licence\<close>, \<open>responsible service of alcohol\<close>, in that order and without
  duplicates, both for the flags as \<open>scrapeAll\<close> passes them on and for the bare alcohol
  flags; and \<open>supplementalQueries\<close> issues exactly these two queries.
\<close>

theorem C7_alcohol_plan:
  "dedupeBy (wants (flagsOf alcoholOnly)) (\<lambda>x. x)
     = [''liquor licence'', ''responsible service of alcohol'']
   \<and> dedupeBy (wants \<lparr>alcohol = alcohol alcoholOnly, medicines = None, chemicals = None\<rparr>)
        (\<lambda>x. x)
     = [''liquor licence'', ''responsible service of alcohol'']
   \<and> distinct (dedupeBy (wants (flagsOf alcoholOnly)) (\<lambda>x. x))
   \<and> issued (snd (supplementalQueries e d p (flagsOf alcoholOnly) b))
     = issued b @ [(d, ''liquor licence'', p), (d, ''responsible service of alcohol'', p)]"
proof -
  have w1: "wants (flagsOf alcoholOnly) = [''liquor licence'', ''responsible service of alcohol'']"
    by (simp add: wants_def flagsOf_def alcoholOnly_def)
  have w2: "wants \<lparr>alcohol = alcohol alcoholOnly, medicines = None, chemicals = None\<rparr>
              = [''liquor licence'', ''responsible service of alcohol'']"
    by (simp add: wants_def alcoholOnly_def)
  have d: "dedupeBy [''liquor licence'', ''responsible service of alcohol''] (\<lambda>x. x)
             = [''liquor licence'', ''responsible service of alcohol'']"
    by (simp add: dedupeBy_def)
  show ?thesis
    unfolding supplementalQueries_state w1 w2 d by simp
qed

theorem C7_alcohol_plan_witness:
  "issued (snd (supplementalQueries quietEnv 0 ''3066'' (flagsOf alcoholOnly) freshBrowser))
     = [(0, ''liquor licence'', ''3066''), (0, ''responsible service of alcohol'', ''3066'')]"
  using C7_alcohol_plan [of quietEnv 0 "''3066''" freshBrowser]
  by (simp add: freshBrowser_def)

section \<open>The extractor\<close>














section \<open>The extractor on a card\<close>


lemma lower_in_table:
  "map_of (zip upper_letters lower_letters) c = Some l \<Longrightarrow> l \<in> set lower_letters"
  by (meson map_of_SomeD set_zip_rightD)

lemma toLowerChar_cases: "toLowerChar c = c \<or> toLowerChar c \<in> set lower_letters"
  unfolding toLowerChar_def using lower_in_table [of c] by (auto split: option.splits)

lemma toLowerChar_fixed:
  "toLowerChar CHR ''<'' = CHR ''<''" "toLowerChar CHR ''>'' = CHR ''>''"
  "toLowerChar CHR ''/'' = CHR ''/''" "toLowerChar CHR 0x22 = CHR 0x22"
  "toLowerChar CHR ''='' = CHR ''=''" "toLowerChar CHR '' '' = CHR '' ''"
  "toLowerChar CHR ''-'' = CHR ''-''" "toLowerChar CHR ''3'' = CHR ''3''"
  "toLowerChar CHR ''2'' = CHR ''2''"
  "toLowerChar CHR ''a'' = CHR ''a''" "toLowerChar CHR ''b'' = CHR ''b''"
  "toLowerChar CHR ''c'' = CHR ''c''" "toLowerChar CHR ''d'' = CHR ''d''"
  "toLowerChar CHR ''e'' = CHR ''e''" "toLowerChar CHR ''f'' = CHR ''f''"
  "toLowerChar CHR ''g'' = CHR ''g''" "toLowerChar CHR ''h'' = CHR ''h''"
  "toLowerChar CHR ''i'' = CHR ''i''" "toLowerChar CHR ''j'' = CHR ''j''"
  "toLowerChar CHR ''k'' = CHR ''k''" "toLowerChar CHR ''l'' = CHR ''l''"
  "toLowerChar CHR ''m'' = CHR ''m''" "toLowerChar CHR ''n'' = CHR ''n''"
  "toLowerChar CHR ''o'' = CHR ''o''" "toLowerChar CHR ''p'' = CHR ''p''"
  "toLowerChar CHR ''q'' = CHR ''q''" "toLowerChar CHR ''r'' = CHR ''r''"
  "toLowerChar CHR ''s'' = CHR ''s''" "toLowerChar CHR ''t'' = CHR ''t''"
  "toLowerChar CHR ''u'' = CHR ''u''" "toLowerChar CHR ''v'' = CHR ''v''"
  "toLowerChar CHR ''w'' = CHR ''w''" "toLowerChar CHR ''x'' = CHR ''x''"
  "toLowerChar CHR ''y'' = CHR ''y''" "toLowerChar CHR ''z'' = CHR ''z''"
  by code_simp+

lemma lt_not_lower: "CHR ''<'' \<notin> set lower_letters" by code_simp
lemma quote_not_lower: "CHR 0x22 \<notin> set lower_letters" by code_simp

lemma toLowerChar_lt [simp]: "(CHR ''<'' = toLowerChar c) = (c = CHR ''<'')"
  using toLowerChar_cases [of c] lt_not_lower toLowerChar_fixed(1) by metis

lemma toLowerChar_quote [simp]: "(CHR 0x22 = toLowerChar c) = (c = CHR 0x22)"
  using toLowerChar_cases [of c] quote_not_lower toLowerChar_fixed(4) by metis


lemma regex_exec_skip:
  assumes "\<And>x1 c x2. x = x1 @ c # x2 \<Longrightarrow> rmatch R Some (c # x2 @ y, replicate n None) = None"
  shows "regex_exec R n (x @ y) = regex_exec R n y"
  using assms
proof (induction x)
  case Nil
  show ?case by simp
next
  case (Cons a x)
  have h: "rmatch R Some (a # x @ y, replicate n None) = None"
    using Cons.prems [of "[]" a x] by simp
  have "regex_exec R n (x @ y) = regex_exec R n y"
  proof (rule Cons.IH)
    fix x1 c x2 assume "x = x1 @ c # x2"
    then have "a # x = (a # x1) @ c # x2" by simp
    then show "rmatch R Some (c # x2 @ y, replicate n None) = None" by (rule Cons.prems)
  qed
  then show ?case using h by simp
qed

lemma split_loop_skip:
  assumes "\<And>c s. c \<in> set x \<Longrightarrow> match_at R (c # s) = None"
  shows "split_loop R (x @ y) acc = split_loop R y (rev x @ acc)"
  using assms by (induction x arbitrary: acc) simp_all





















subsection \<open>What follows from what the patterns read\<close>









subsection \<open>What the patterns read from a card\<close>











subsection \<open>One card, one record\<close>




end
